theory Spec2Isabelle
  imports Main "HOL-Library.Word" "HOL-Library.Signed_Division"
begin

unbundle bit_operations_syntax

section \<open>The RFM69 driver (Source/rfm69.cxx, Source/rfm69.hxx)\<close>

text \<open>
  The driver talks to the transceiver through the SPI device: every access is one
  \<^verbatim>\<open>ioctl(fd, SPI_IOC_MESSAGE(1), xfer)\<close> of one or two bytes. What the chip clocks
  back, whether the ioctl succeeds, what the real-time clock shows and what \<^verbatim>\<open>rand()\<close>
  returns are inputs of the program; they are collected in an environment, indexed by
  the number of calls made so far. Everything the driver does to the outside (the bytes
  it puts on the bus, the time it sleeps) is recorded in the state, next to the fields
  of the C++ object. \<^verbatim>\<open>printf\<close> output is diagnostic only and is left out.
\<close>

subsection \<open>Constants\<close>

text \<open>
  \<^verbatim>\<open>RFM69Mode\<close> is a plain C++ enum; \<^verbatim>\<open>setMode\<close> itself checks for values above
  \<^verbatim>\<open>RFM69_MODE_RX\<close>, so a mode is the unsigned integer that holds the enum.
\<close>

type_synonym RFM69Mode = "32 word"

abbreviation (input) RFM69_MODE_SLEEP :: RFM69Mode where "RFM69_MODE_SLEEP \<equiv> 0"
abbreviation (input) RFM69_MODE_STANDBY :: RFM69Mode where "RFM69_MODE_STANDBY \<equiv> 1"
abbreviation (input) RFM69_MODE_FS :: RFM69Mode where "RFM69_MODE_FS \<equiv> 2"
abbreviation (input) RFM69_MODE_TX :: RFM69Mode where "RFM69_MODE_TX \<equiv> 3"
abbreviation (input) RFM69_MODE_RX :: RFM69Mode where "RFM69_MODE_RX \<equiv> 4"

abbreviation (input) RFM69_MAX_PAYLOAD :: nat where "RFM69_MAX_PAYLOAD \<equiv> 64"
abbreviation (input) TIMEOUT_MODE_READY :: "32 word" where "TIMEOUT_MODE_READY \<equiv> 100"
abbreviation (input) TIMEOUT_PACKET_SENT :: "32 word" where "TIMEOUT_PACKET_SENT \<equiv> 100"
abbreviation (input) TIMEOUT_CSMA_READY :: "32 word" where "TIMEOUT_CSMA_READY \<equiv> 500"
abbreviation (input) CSMA_RSSI_THRESHOLD :: int where "CSMA_RSSI_THRESHOLD \<equiv> - 85"

subsection \<open>Environment, errors and the driver state\<close>

text \<open>
  \<open>ioctl_status E n\<close> is the return value of the \<open>n\<close>-th SPI ioctl and \<open>rx_buf E n\<close> the
  two bytes it received (a one-byte transfer uses the first only);
  \<open>clock_gettime E n\<close> is \<open>(tv_sec, tv_nsec)\<close> of the \<open>n\<close>-th reading of the real-time
  clock; \<open>rand_result E n\<close> is what the \<open>n\<close>-th call of \<^verbatim>\<open>rand()\<close> returns.
\<close>

record env =
  ioctl_status :: "nat \<Rightarrow> int"
  rx_buf :: "nat \<Rightarrow> 8 word \<times> 8 word"
  clock_gettime :: "nat \<Rightarrow> int \<times> int"
  rand_result :: "nat \<Rightarrow> nat"

text \<open>
  \<open>SpiAbort\<close>: \<^verbatim>\<open>pabort("SPI_IOC_MESSAGE")\<close>, the process is aborted.
  \<open>OutOfBounds\<close>: a read or write past the end of a buffer (undefined behaviour in C++).
\<close>

datatype error = SpiAbort | OutOfBounds

text \<open>
  The fields of class \<^verbatim>\<open>RFM69\<close> (without the leading underscore), then the record of
  the outside world: \<open>bus\<close> holds the transmit buffer of every SPI transfer made so far,
  oldest first; \<open>ticks\<close> and \<open>rands\<close> count the clock readings and the calls of
  \<^verbatim>\<open>rand()\<close>; \<open>slept\<close> is the sum of the \<^verbatim>\<open>delay()\<close> arguments.
\<close>

record RFM69 =
  mode :: RFM69Mode
  highPowerDevice :: bool
  powerLevel :: "8 word"
  rssi :: int
  autoReadRSSI :: bool
  ookEnabled :: bool
  highPowerSettings :: bool
  csmaEnabled :: bool
  rxBuffer :: "8 word list"
  rxBufferLength :: "32 word"
  bus :: "8 word list list"
  ticks :: nat
  rands :: nat
  slept :: nat

text \<open>An operation without a loop: it fails, or returns a value and the new state.\<close>

type_synonym 'a io = "RFM69 \<Rightarrow> error + 'a \<times> RFM69"

definition io_return :: "'a \<Rightarrow> 'a io" where
  "io_return x s = Inr (x, s)"

definition io_bind :: "'a io \<Rightarrow> ('a \<Rightarrow> 'b io) \<Rightarrow> 'b io" where
  "io_bind m f s = (case m s of Inl e \<Rightarrow> Inl e | Inr (x, s') \<Rightarrow> f x s')"

definition io_then :: "'a io \<Rightarrow> 'b io \<Rightarrow> 'b io" where
  "io_then m k = io_bind m (\<lambda>_. k)"

subsection \<open>The SPI transport\<close>

text \<open>One \<^verbatim>\<open>ioctl(fd, SPI_IOC_MESSAGE(1), xfer)\<close>; a negative status aborts.\<close>

definition spi_ioc_message :: "env \<Rightarrow> 8 word list \<Rightarrow> (8 word \<times> 8 word) io" where
  "spi_ioc_message E tx_buf s =
     (let n = length (bus s) in
      if ioctl_status E n < 0 then Inl SpiAbort
      else Inr (rx_buf E n, s\<lparr>bus := bus s @ [tx_buf]\<rparr>))"

text \<open>
  \<^verbatim>\<open>rf12_xferCmd\<close> sends the high byte of \<open>cmd\<close>, then the low byte, and returns the two
  bytes received as one 16-bit value; \<^verbatim>\<open>rf12_xferByte\<close> sends one byte and returns the
  byte received.
\<close>

definition rf12_xferCmd :: "env \<Rightarrow> 16 word \<Rightarrow> (16 word) io" where
  "rf12_xferCmd E cmd =
     io_bind (spi_ioc_message E [ucast (drop_bit 8 cmd AND 0xff), ucast (cmd AND 0xff)])
       (\<lambda>(rx0, rx1). io_return (push_bit 8 (ucast rx0) OR ucast rx1))"

definition rf12_xferByte :: "env \<Rightarrow> 8 word \<Rightarrow> (16 word) io" where
  "rf12_xferByte E cmd =
     io_bind (spi_ioc_message E [cmd]) (\<lambda>(rx0, rx1). io_return (ucast rx0))"

subsection \<open>Register access\<close>

text \<open>
  \<^verbatim>\<open>chipSelect\<close> and \<^verbatim>\<open>chipUnselect\<close> have empty bodies in this port. \<^verbatim>\<open>readRegister\<close>
  keeps the low byte of what \<^verbatim>\<open>rf12_xferCmd\<close> returns (the conversion to \<^verbatim>\<open>uint8_t\<close>).
\<close>

definition chipSelect :: "unit io" where
  "chipSelect = io_return ()"

definition chipUnselect :: "unit io" where
  "chipUnselect = io_return ()"

definition readRegister :: "env \<Rightarrow> 8 word \<Rightarrow> (8 word) io" where
  "readRegister E reg =
     (if reg > 0x7f then io_return 0
      else io_then chipSelect
        (io_bind (rf12_xferCmd E (push_bit 8 (ucast reg)))
          (\<lambda>v. io_then chipUnselect (io_return (ucast v)))))"

definition writeRegister :: "env \<Rightarrow> 8 word \<Rightarrow> 8 word \<Rightarrow> unit io" where
  "writeRegister E reg v =
     (if reg > 0x7f then io_return ()
      else io_then chipSelect
        (io_then (rf12_xferCmd E (push_bit 8 (ucast (reg OR 0x80)) OR (ucast v AND 0xff)))
          chipUnselect))"

subsection \<open>Operating mode and power amplifier\<close>

text \<open>
  \<^verbatim>\<open>setMode\<close> writes \<^verbatim>\<open>mode << 2\<close> to register \<open>0x01\<close>; the \<^verbatim>\<open>switch\<close> on the new mode
  is the inner conditional.
\<close>

definition setHighPowerSettings :: "env \<Rightarrow> bool \<Rightarrow> unit io" where
  "setHighPowerSettings E enable s =
     (let enable = (if enable \<and> \<not> highPowerDevice s then False else enable) in
      io_then (writeRegister E 0x5A (if enable then 0x5D else 0x55))
              (writeRegister E 0x5C (if enable then 0x7C else 0x70)) s)"

definition setMode :: "env \<Rightarrow> RFM69Mode \<Rightarrow> RFM69Mode io" where
  "setMode E m s =
     (if m = mode s \<or> m > RFM69_MODE_RX then io_return (mode s) s
      else
        io_then (writeRegister E 0x01 (ucast (push_bit 2 m)))
          (io_then
            (\<lambda>s. if highPowerDevice s then
                    (if m = RFM69_MODE_RX then
                       (if highPowerSettings s then setHighPowerSettings E False s
                        else io_return () s)
                     else if m = RFM69_MODE_TX then
                       (if highPowerSettings s then setHighPowerSettings E True s
                        else io_return () s)
                     else io_return () s)
                  else io_return () s)
            (\<lambda>s. io_return m (s\<lparr>mode := m\<rparr>))) s)"

definition setPowerLevel :: "env \<Rightarrow> 8 word \<Rightarrow> unit io" where
  "setPowerLevel E pwr =
     (let pwr = (if pwr > 31 then 31 else pwr) in
      io_bind (readRegister E 0x11)
        (\<lambda>r. io_then (writeRegister E 0x11 ((r AND 0xE0) OR pwr))
          (\<lambda>s. io_return () (s\<lparr>powerLevel := pwr\<rparr>))))"

text \<open>
  \<^verbatim>\<open>int8_t dBm\<close> is read as a signed byte; \<^verbatim>\<open>powerLevel = dBm + 18\<close> is computed in
  \<^verbatim>\<open>int\<close> and stored in a local \<^verbatim>\<open>uint8_t\<close>. The result is the returned \<^verbatim>\<open>int\<close>.
\<close>

definition setPowerDBm :: "env \<Rightarrow> 8 word \<Rightarrow> int io" where
  "setPowerDBm E dBm s =
     (let d = sint dBm in
      if d < - 18 \<or> d > 20 then io_return (- 1) s
      else if \<not> highPowerDevice s \<and> d > 13 then io_return (- 1) s
      else if highPowerDevice s \<and> d < - 2 then io_return (- 1) s
      else if \<not> highPowerDevice s then
        (let powerLevel = (word_of_int (d + 18) :: 8 word) in
         io_then (writeRegister E 0x11 (0x80 OR powerLevel)) (io_return 0) s)
      else if d \<ge> - 2 \<and> d \<le> 13 then
        (let powerLevel = (word_of_int (d + 18) :: 8 word) in
         io_then (writeRegister E 0x11 (0x40 OR powerLevel))
           (io_then (\<lambda>s. setHighPowerSettings E False (s\<lparr>highPowerSettings := False\<rparr>))
             (io_return 0)) s)
      else if d > 13 \<and> d \<le> 17 then
        (let powerLevel = (word_of_int (d + 14) :: 8 word) in
         io_then (writeRegister E 0x11 (0x60 OR powerLevel))
           (io_then (\<lambda>s. setHighPowerSettings E False (s\<lparr>highPowerSettings := False\<rparr>))
             (io_return 0)) s)
      else
        (let powerLevel = (word_of_int (d + 11) :: 8 word) in
         io_then (writeRegister E 0x11 (0x60 OR powerLevel))
           (io_then (\<lambda>s. setHighPowerSettings E True (s\<lparr>highPowerSettings := True\<rparr>))
             (io_return 0)) s))"

subsection \<open>Possibly non-terminating operations\<close>

text \<open>
  The driver's waits are busy loops on a status register and the clock. An operation
  that contains one is a function into \<open>option\<close>: \<open>None\<close> means that it never returns.
\<close>

type_synonym 'a prog = "RFM69 \<Rightarrow> (error + 'a \<times> RFM69) option"

definition io_total :: "'a io \<Rightarrow> 'a prog" where
  "io_total m s = Some (m s)"

definition prog_bind :: "'a prog \<Rightarrow> ('a \<Rightarrow> 'b prog) \<Rightarrow> 'b prog" where
  "prog_bind m f s =
     (case m s of None \<Rightarrow> None | Some (Inl e) \<Rightarrow> Some (Inl e) | Some (Inr (x, s')) \<Rightarrow> f x s')"

definition prog_then :: "'a prog \<Rightarrow> 'b prog \<Rightarrow> 'b prog" where
  "prog_then m k = prog_bind m (\<lambda>_. k)"

text \<open>
  \<^verbatim>\<open>HAL_GetTick\<close> returns \<^verbatim>\<open>spec.tv_sec + (spec.tv_nsec / 1000000)\<close> as \<^verbatim>\<open>uint32_t\<close>:
  the division truncates (\<open>sdiv\<close>), the sum is taken modulo \<open>2 ^ 32\<close>. \<^verbatim>\<open>delay\<close> only lets
  time pass.
\<close>

definition HAL_GetTick :: "env \<Rightarrow> (32 word) io" where
  "HAL_GetTick E s =
     (case clock_gettime E (ticks s) of
        (tv_sec, tv_nsec) \<Rightarrow>
          Inr (word_of_int (tv_sec + tv_nsec sdiv 1000000), s\<lparr>ticks := Suc (ticks s)\<rparr>))"

definition delay :: "nat \<Rightarrow> unit io" where
  "delay howLong s = Inr ((), s\<lparr>slept := slept s + howLong\<rparr>)"

definition rand :: "env \<Rightarrow> nat io" where
  "rand E s = Inr (rand_result E (rands s), s\<lparr>rands := Suc (rands s)\<rparr>)"

text \<open>
  The four bounded waits of the driver are the same loop,
  \<^verbatim>\<open>while (((readRegister(reg) & msk) == 0) && ((HAL_GetTick() - timeEntry) < timeout));\<close>
  with its own register, mask and timeout each: \<open>pollRegister\<close>. The clock is read only
  when the flag is not set (\<^verbatim>\<open>&&\<close>), and the difference of the ticks is unsigned.
\<close>

partial_function (option) pollRegister ::
  "env \<Rightarrow> 8 word \<Rightarrow> 8 word \<Rightarrow> 32 word \<Rightarrow> 32 word \<Rightarrow> RFM69 \<Rightarrow> (error + unit \<times> RFM69) option"
where
  "pollRegister E reg msk timeout timeEntry s =
     (case readRegister E reg s of
        Inl e \<Rightarrow> Some (Inl e)
      | Inr (v, s1) \<Rightarrow>
          if v AND msk = 0 then
            (case HAL_GetTick E s1 of
               Inl e \<Rightarrow> Some (Inl e)
             | Inr (now, s2) \<Rightarrow>
                 if now - timeEntry < timeout
                 then pollRegister E reg msk timeout timeEntry s2
                 else Some (Inr ((), s2)))
          else Some (Inr ((), s1)))"

definition clearFIFO :: "env \<Rightarrow> unit io" where
  "clearFIFO E = writeRegister E 0x28 0x10"

definition waitForModeReady :: "env \<Rightarrow> unit prog" where
  "waitForModeReady E =
     prog_bind (io_total (HAL_GetTick E))
       (\<lambda>timeEntry. pollRegister E 0x27 0x80 TIMEOUT_MODE_READY timeEntry)"

definition waitForPacketSent :: "env \<Rightarrow> unit prog" where
  "waitForPacketSent E =
     prog_bind (io_total (HAL_GetTick E))
       (\<lambda>timeEntry. pollRegister E 0x28 0x08 TIMEOUT_PACKET_SENT timeEntry)"

text \<open>\<^verbatim>\<open>_rssi = -readRegister(0x24) / 2\<close>: negated as \<^verbatim>\<open>int\<close>, then divided with truncation.\<close>

definition readRSSI :: "env \<Rightarrow> int io" where
  "readRSSI E =
     io_bind (readRegister E 0x24)
       (\<lambda>v s. let r = (- uint v) sdiv 2 in Inr (r, s\<lparr>rssi := r\<rparr>))"

definition channelFree :: "env \<Rightarrow> bool io" where
  "channelFree E =
     io_bind (readRSSI E) (\<lambda>r. if r < CSMA_RSSI_THRESHOLD then io_return True else io_return False)"

text \<open>
  The loop of \<^verbatim>\<open>_receive\<close> that empties the FIFO into \<open>data\<close>,
  \<^verbatim>\<open>while ((readRegister(0x28) & 0x40) && (bytesRead < dataLength))\<close>; a store past the
  end of the caller's buffer is \<open>OutOfBounds\<close>.
\<close>

function drainFIFO ::
  "env \<Rightarrow> 8 word list \<Rightarrow> 32 word \<Rightarrow> 32 word \<Rightarrow> (32 word \<times> 8 word list) io" where
  "drainFIFO E data dataLength bytesRead s =
     (case readRegister E 0x28 s of
        Inl e \<Rightarrow> Inl e
      | Inr (f, s1) \<Rightarrow>
          if f AND 0x40 \<noteq> 0 \<and> bytesRead < dataLength then
            (case readRegister E 0x00 s1 of
               Inl e \<Rightarrow> Inl e
             | Inr (b, s2) \<Rightarrow>
                 if unat bytesRead < length data
                 then drainFIFO E (data[unat bytesRead := b]) dataLength (bytesRead + 1) s2
                 else Inl OutOfBounds)
          else Inr ((bytesRead, data), s1))"
  by pat_completeness auto
termination
proof (relation "measure (\<lambda>(E, data, dataLength, bytesRead, s). unat dataLength - unat bytesRead)",
    goal_cases)
  case 1
  show ?case by simp
next
  case (2 E data dataLength bytesRead s x2 f s1 x2a b s2)
  then have lt: "unat bytesRead < unat dataLength" by (simp add: word_less_nat_alt)
  moreover have "unat dataLength < 2 ^ 32"
    using unsigned_less [of dataLength, where ?'a = nat] by simp
  ultimately have "unat (bytesRead + 1) = Suc (unat bytesRead)"
    by (simp add: unat_word_ariths)
  with lt show ?case by simp
qed

declare drainFIFO.simps [simp del]

text \<open>
  \<^verbatim>\<open>RFM69::_receive\<close> in two parts: \<open>readPacket\<close> is its body after the switch to RX
  mode (from the reads of registers \<open>0x24\<close> and \<open>0x27\<close> on), \<open>receive_internal\<close> the
  whole function. The caller's buffer \<open>data\<close> is passed in and returned.
\<close>

definition readPacket ::
  "env \<Rightarrow> 8 word list \<Rightarrow> 32 word \<Rightarrow> (int \<times> 8 word list) io" where
  "readPacket E data dataLength =
     io_bind (readRegister E 0x24) (\<lambda>r.
     io_bind (readRegister E 0x27) (\<lambda>r2.
     io_bind (readRegister E 0x28) (\<lambda>r.
       if r AND 0x04 \<noteq> 0 then
         io_then (setMode E RFM69_MODE_STANDBY)
           (io_bind (drainFIFO E data dataLength 0) (\<lambda>(bytesRead, data').
            io_then
              (\<lambda>s. if autoReadRSSI s then io_then (readRSSI E) (io_return ()) s
                   else io_return () s)
              (io_then (setMode E RFM69_MODE_RX)
                (io_bind (readRegister E 0x3D) (\<lambda>v.
                 io_then (writeRegister E 0x3D (v OR 0x04))
                   (io_return (sint bytesRead, data')))))))
       else io_return (0, data))))"

definition receive_internal ::
  "env \<Rightarrow> 8 word list \<Rightarrow> 32 word \<Rightarrow> (int \<times> 8 word list) prog" where
  "receive_internal E data dataLength =
     prog_then
       (\<lambda>s. if mode s \<noteq> RFM69_MODE_RX
            then prog_then (io_total (setMode E RFM69_MODE_RX)) (waitForModeReady E) s
            else io_total (io_return ()) s)
       (io_total (readPacket E data dataLength))"

text \<open>
  \<^verbatim>\<open>memcpy(dest, src, n)\<close> on buffers of known size, and \<^verbatim>\<open>RFM69::receive\<close>, which
  returns the result and the caller's buffer.
\<close>

definition memcpy :: "'a list \<Rightarrow> 'a list \<Rightarrow> nat \<Rightarrow> error + 'a list" where
  "memcpy dest src n =
     (if n \<le> length src \<and> n \<le> length dest then Inr (take n src @ drop n dest)
      else Inl OutOfBounds)"

definition receive ::
  "env \<Rightarrow> 8 word list \<Rightarrow> 32 word \<Rightarrow> (int \<times> 8 word list) prog" where
  "receive E data dataLength s =
     (if rxBufferLength s > 0 then
        (case memcpy data (rxBuffer s) (unat dataLength) of
           Inl e \<Rightarrow> Some (Inl e)
         | Inr data' \<Rightarrow>
             (let bytesRead = rxBufferLength s
              in Some (Inr ((sint bytesRead, data'), s\<lparr>rxBufferLength := 0\<rparr>))))
      else receive_internal E data dataLength s)"

text \<open>
  \<^verbatim>\<open>for (i = 0; i < n; i++) rf12_xferByte(_fd, data[i]);\<close>: the payload loop of
  \<^verbatim>\<open>send\<close> and the key loop of \<^verbatim>\<open>setAESEncryption\<close>. Reading past the end of \<open>data\<close>
  is \<open>OutOfBounds\<close>.
\<close>

fun xferBytes :: "env \<Rightarrow> 8 word list \<Rightarrow> nat \<Rightarrow> unit io" where
  "xferBytes E data 0 = io_return ()"
| "xferBytes E [] (Suc n) = (\<lambda>s. Inl OutOfBounds)"
| "xferBytes E (b # data) (Suc n) = io_then (rf12_xferByte E b) (xferBytes E data n)"

text \<open>
  The CSMA block of \<^verbatim>\<open>send\<close> (the body of \<^verbatim>\<open>if (true == _csmaEnabled)\<close>) is \<open>csma\<close>:
  \<open>restartRx\<close> is \<^verbatim>\<open>writeRegister(0x3D, (readRegister(0x3D) & 0xFB) | 0x20)\<close>, \<open>waitForRssi\<close>
  the wait for the RSSI sample, \<open>csmaLoop\<close> the \<^verbatim>\<open>while\<close> loop on \<^verbatim>\<open>channelFree()\<close> and
  the timeout, \<open>csmaBody\<close> its body. \<^verbatim>\<open>_receive(_rxBuffer, RFM69_MAX_PAYLOAD)\<close> writes
  into \<^verbatim>\<open>_rxBuffer\<close> itself, so the buffer it returns replaces that field.
\<close>

definition restartRx :: "env \<Rightarrow> unit io" where
  "restartRx E =
     io_bind (readRegister E 0x3D) (\<lambda>v. writeRegister E 0x3D ((v AND 0xFB) OR 0x20))"

definition waitForRssi :: "env \<Rightarrow> 32 word \<Rightarrow> unit prog" where
  "waitForRssi E timeEntry = pollRegister E 0x23 0x02 10 timeEntry"

definition csmaBody :: "env \<Rightarrow> unit prog" where
  "csmaBody E =
     prog_then (io_total (io_bind (rand E) (\<lambda>r. delay (r mod 10))))
       (prog_bind (\<lambda>s. receive_internal E (rxBuffer s) (of_nat RFM69_MAX_PAYLOAD) s)
         (\<lambda>(bytesRead, data') s.
            if bytesRead > 0 then
              prog_then (io_total (restartRx E))
                (prog_bind (io_total (HAL_GetTick E)) (waitForRssi E))
                (s\<lparr>rxBuffer := data', rxBufferLength := word_of_int bytesRead\<rparr>)
            else Some (Inr ((), s\<lparr>rxBuffer := data'\<rparr>))))"

partial_function (option) csmaLoop ::
  "env \<Rightarrow> 32 word \<Rightarrow> RFM69 \<Rightarrow> (error + unit \<times> RFM69) option"
where
  "csmaLoop E timeEntry s =
     (case channelFree E s of
        Inl e \<Rightarrow> Some (Inl e)
      | Inr (free, s1) \<Rightarrow>
          if \<not> free then
            (case HAL_GetTick E s1 of
               Inl e \<Rightarrow> Some (Inl e)
             | Inr (now, s2) \<Rightarrow>
                 if now - timeEntry < TIMEOUT_CSMA_READY then
                   (case csmaBody E s2 of
                      None \<Rightarrow> None
                    | Some (Inl e) \<Rightarrow> Some (Inl e)
                    | Some (Inr (u, s3)) \<Rightarrow> csmaLoop E timeEntry s3)
                 else Some (Inr ((), s2)))
          else Some (Inr ((), s1)))"

definition csma :: "env \<Rightarrow> unit prog" where
  "csma E =
     prog_then (io_total (io_then (restartRx E) (io_then (setMode E RFM69_MODE_RX) (io_return ()))))
       (prog_bind (io_total (HAL_GetTick E)) (\<lambda>timeEntry.
          prog_then (waitForRssi E timeEntry)
            (prog_then (csmaLoop E timeEntry)
              (io_total (io_then (setMode E RFM69_MODE_STANDBY) (io_return ()))))))"

text \<open>
  \<^verbatim>\<open>RFM69::send\<close>: \<open>transmit\<close> is its last part, from the transfer of the packet to the
  FIFO on; \<open>send\<close> is the whole function. \<open>data\<close> is the caller's buffer.
\<close>

definition transmit :: "env \<Rightarrow> 8 word list \<Rightarrow> 32 word \<Rightarrow> int prog" where
  "transmit E data dataLength =
     prog_then
       (io_total
         (io_then chipSelect
           (io_then (rf12_xferByte E (0x00 OR 0x80))
             (io_then (rf12_xferByte E (ucast dataLength))
               (io_then (xferBytes E data (unat dataLength))
                 (io_then chipUnselect
                   (io_then (setMode E RFM69_MODE_TX) (io_return ()))))))))
       (prog_then (waitForPacketSent E)
         (io_total (io_then (setMode E RFM69_MODE_STANDBY) (io_return (sint dataLength)))))"

definition send :: "env \<Rightarrow> 8 word list \<Rightarrow> 32 word \<Rightarrow> int prog" where
  "send E data dataLength =
     prog_then
       (\<lambda>s. if mode s \<noteq> RFM69_MODE_SLEEP
            then prog_then (io_total (setMode E RFM69_MODE_STANDBY)) (waitForModeReady E) s
            else io_total (io_return ()) s)
       (prog_then (io_total (clearFIFO E))
         (let dataLength = (if dataLength > of_nat RFM69_MAX_PAYLOAD
                            then of_nat RFM69_MAX_PAYLOAD else dataLength)
          in if dataLength = 0 then io_total (io_return 0)
             else prog_then
                    (\<lambda>s. if csmaEnabled s then csma E s else io_total (io_return ()) s)
                    (transmit E data dataLength)))"

text \<open>\<^verbatim>\<open>aesKey\<close> is \<open>None\<close> for a null pointer, otherwise the bytes of the key buffer.\<close>

definition setAESEncryption :: "env \<Rightarrow> 8 word list option \<Rightarrow> 32 word \<Rightarrow> bool io" where
  "setAESEncryption E aesKey keyLength =
     (let enable = (aesKey \<noteq> None \<and> keyLength = 16) in
      io_then (setMode E RFM69_MODE_STANDBY)
        (io_then
          (if enable then
             io_then chipSelect
               (io_then (rf12_xferByte E (0x3E OR 0x80))
                 (io_then (xferBytes E (the aesKey) (unat keyLength)) chipUnselect))
           else io_return ())
          (io_bind (readRegister E 0x3D) (\<lambda>v.
            io_then (writeRegister E 0x3D ((v AND 0xFE) OR (if enable then 1 else 0)))
              (io_return enable)))))"

section \<open>Vocabulary of the properties\<close>

text \<open>The SPI device never fails: no ioctl returns a negative status.\<close>

definition spi_ok :: "env \<Rightarrow> bool" where
  "spi_ok E = (\<forall>n. 0 \<le> ioctl_status E n)"

text \<open>
  The object as \<^verbatim>\<open>RFM69::RFM69(bool highPowerDevice)\<close> leaves it (the bytes of
  \<^verbatim>\<open>_rxBuffer\<close>, indeterminate in C++, are fixed to 0), with nothing on the bus yet.
\<close>

definition RFM69_new :: "bool \<Rightarrow> RFM69" where
  "RFM69_new hp = \<lparr>mode = RFM69_MODE_STANDBY, highPowerDevice = hp, powerLevel = 0,
     rssi = - 127, autoReadRSSI = True, ookEnabled = False, highPowerSettings = False,
     csmaEnabled = False, rxBuffer = replicate 64 0, rxBufferLength = 0,
     bus = [], ticks = 0, rands = 0, slept = 0\<rparr>"

text \<open>
  A test environment: the bus always works and clocks back \<open>0x2A\<close> as data byte, the
  clock advances one millisecond per reading.
\<close>

definition env0 :: env where
  "env0 = \<lparr>ioctl_status = (\<lambda>n. 0), rx_buf = (\<lambda>n. (0, 0x2A)),
            clock_gettime = (\<lambda>n. (0, int n * 1000000)), rand_result = (\<lambda>n. n)\<rparr>"

text \<open>
  The power level last written to the chip: the low five bits of the data byte of the
  last write frame for register \<open>0x11\<close> (address byte \<open>0x91\<close>) on the bus.
\<close>

fun paLevelOf :: "8 word list \<Rightarrow> 8 word option" where
  "paLevelOf [a, v] = (if a = 0x91 then Some (v AND 0x1F) else None)"
| "paLevelOf _ = None"

definition lastPaLevelWrite :: "8 word list list \<Rightarrow> 8 word option" where
  "lastPaLevelWrite frames =
     (let vs = List.map_filter paLevelOf frames in if vs = [] then None else Some (last vs))"

definition powerLevel_applied :: "RFM69 \<Rightarrow> bool" where
  "powerLevel_applied s =
     (case lastPaLevelWrite (bus s) of None \<Rightarrow> True | Some v \<Rightarrow> powerLevel s = v)"

text \<open>A device that holds a stashed packet of five bytes.\<close>

definition stash5 :: RFM69 where
  "stash5 = (RFM69_new False)\<lparr>rxBuffer := [1, 2, 3, 4, 5] @ replicate 59 0, rxBufferLength := 5\<rparr>"

text \<open>
  \<open>tickAt E n\<close> is what the \<open>n\<close>-th call of \<^verbatim>\<open>HAL_GetTick()\<close> returns. The clock advances
  when no reading is more than 1000 ticks later than the reading before it, and any
  1000 consecutive readings see at least one tick pass (in 32-bit arithmetic, so the
  tick counter may wrap around). A clock that moves one tick or more with every reading
  is a special case. A clock that stands still for ever is excluded, and so is a clock
  that steps back or jumps ahead by more than 1000 ticks between two readings: the
  differences are unsigned, so a step back counts as a jump of nearly \<open>2 ^ 32\<close> ticks.
\<close>

definition tickAt :: "env \<Rightarrow> nat \<Rightarrow> 32 word" where
  "tickAt E n =
     (case clock_gettime E n of (tv_sec, tv_nsec) \<Rightarrow> word_of_int (tv_sec + tv_nsec sdiv 1000000))"

definition clock_advances :: "env \<Rightarrow> bool" where
  "clock_advances E =
     (\<forall>n. tickAt E (Suc n) - tickAt E n \<le> 1000 \<and> 1 \<le> tickAt E (n + 1000) - tickAt E n)"

text \<open>
  \<open>progress n s s'\<close>: from \<open>s\<close> to \<open>s'\<close> the bus log was only extended, the receive buffer
  kept its size, and between 0 and \<open>n\<close> clock readings were made.
\<close>

definition progress :: "nat \<Rightarrow> RFM69 \<Rightarrow> RFM69 \<Rightarrow> bool" where
  "progress n s s' =
     (length (rxBuffer s') = length (rxBuffer s) \<and> (\<exists>fs. bus s' = bus s @ fs) \<and>
      ticks s \<le> ticks s' \<and> ticks s' \<le> ticks s + n)"

text \<open>
  \<open>extends s s'\<close>: from \<open>s\<close> to \<open>s'\<close> the bus log was only extended and the receive
  buffer kept its size (nothing is said about the clock).
\<close>

definition extends :: "RFM69 \<Rightarrow> RFM69 \<Rightarrow> bool" where
  "extends s s' = (length (rxBuffer s') = length (rxBuffer s) \<and> (\<exists>fs. bus s' = bus s @ fs))"

text \<open>Like \<open>env0\<close>, but the chip clocks back \<open>0xFF\<close> (an RSSI reading of -127 dBm).\<close>

definition env1 :: env where
  "env1 = env0\<lparr>rx_buf := (\<lambda>n. (0, 0xFF))\<rparr>"

text \<open>
  An environment whose clock stands still: every reading shows time 0. The bus always
  works and the chip clocks back \<open>v\<close> as data byte.
\<close>

definition env_frozen :: "8 word \<Rightarrow> env" where
  "env_frozen v = \<lparr>ioctl_status = (\<lambda>n. 0), rx_buf = (\<lambda>n. (0, v)),
                   clock_gettime = (\<lambda>n. (0, 0)), rand_result = (\<lambda>n. n)\<rparr>"

section \<open>Helper lemmas\<close>

lemma io_bind_return [simp]: "io_bind (io_return x) f = f x"
  by (rule ext) (simp add: io_bind_def io_return_def)

lemma io_then_return [simp]: "io_then (io_return x) k = k"
  by (simp add: io_then_def)

lemma io_bind_Inr [simp]: "m s = Inr (x, s') \<Longrightarrow> io_bind m f s = f x s'"
  by (simp add: io_bind_def)

lemma io_then_Inr [simp]: "m s = Inr (x, s') \<Longrightarrow> io_then m k s = k s'"
  by (simp add: io_then_def)

lemma io_bind_Inl [simp]: "m s = Inl e \<Longrightarrow> io_bind m f s = Inl e"
  by (simp add: io_bind_def)

lemma io_then_Inl [simp]: "m s = Inl e \<Longrightarrow> io_then m k s = Inl e"
  by (simp add: io_then_def)

lemma mask8_16: "(0xff :: 16 word) = mask 8"
  by (simp add: mask_eq_exp_minus_1)

lemma read_frame_hi: "ucast (drop_bit 8 (push_bit 8 (ucast (r::8 word) :: 16 word)) AND 0xff) = r"
  unfolding mask8_16 by (rule bit_word_eqI) (auto simp: bit_simps)

lemma read_frame_lo: "ucast (push_bit 8 (ucast (r::8 word) :: 16 word) AND 0xff) = (0::8 word)"
  unfolding mask8_16 by (rule bit_word_eqI) (auto simp: bit_simps)

lemma write_frame_hi:
  "ucast (drop_bit 8 (push_bit 8 (ucast (r::8 word) :: 16 word) OR (ucast (v::8 word) AND 0xff)) AND 0xff) = r"
  unfolding mask8_16 by (rule bit_word_eqI) (auto simp: bit_simps)

lemma write_frame_lo:
  "ucast ((push_bit 8 (ucast (r::8 word) :: 16 word) OR (ucast (v::8 word) AND 0xff)) AND 0xff) = v"
  unfolding mask8_16 by (rule bit_word_eqI) (auto simp: bit_simps)

lemma rx_low_byte: "ucast (push_bit 8 (ucast (a::8 word)) OR ucast (b::8 word) :: 16 word) = b"
  by (rule bit_word_eqI) (auto simp: bit_simps)

lemma readRegister_invalid: "reg > 0x7f \<Longrightarrow> readRegister E reg s = Inr (0, s)"
  by (simp add: readRegister_def io_return_def)

lemma writeRegister_invalid: "reg > 0x7f \<Longrightarrow> writeRegister E reg v s = Inr ((), s)"
  by (simp add: writeRegister_def io_return_def)

lemma readRegister_valid:
  "reg \<le> 0x7f \<Longrightarrow> 0 \<le> ioctl_status E (length (bus s)) \<Longrightarrow>
   readRegister E reg s = Inr (snd (rx_buf E (length (bus s))), s\<lparr>bus := bus s @ [[reg, 0]]\<rparr>)"
  using leD [of reg "0x7f"]
  by (simp add: readRegister_def rf12_xferCmd_def spi_ioc_message_def chipSelect_def
      chipUnselect_def io_bind_def io_then_def io_return_def Let_def read_frame_hi
      read_frame_lo rx_low_byte split: prod.splits)

lemma writeRegister_valid:
  "reg \<le> 0x7f \<Longrightarrow> 0 \<le> ioctl_status E (length (bus s)) \<Longrightarrow>
   writeRegister E reg v s = Inr ((), s\<lparr>bus := bus s @ [[reg OR 0x80, v]]\<rparr>)"
  using leD [of reg "0x7f"]
  by (simp add: writeRegister_def rf12_xferCmd_def spi_ioc_message_def chipSelect_def
      chipUnselect_def io_bind_def io_then_def io_return_def Let_def write_frame_hi
      write_frame_lo read_frame_hi split: prod.splits)

lemma readRegister_abort:
  "reg \<le> 0x7f \<Longrightarrow> ioctl_status E (length (bus s)) < 0 \<Longrightarrow> readRegister E reg s = Inl SpiAbort"
  using leD [of reg "0x7f"]
  by (simp add: readRegister_def rf12_xferCmd_def spi_ioc_message_def chipSelect_def
      io_bind_def io_then_def io_return_def)

lemma writeRegister_abort:
  "reg \<le> 0x7f \<Longrightarrow> ioctl_status E (length (bus s)) < 0 \<Longrightarrow>
   writeRegister E reg v s = Inl SpiAbort"
  using leD [of reg "0x7f"]
  by (simp add: writeRegister_def rf12_xferCmd_def spi_ioc_message_def chipSelect_def
      io_bind_def io_then_def io_return_def)

lemma spi_ok_env0: "spi_ok env0" by (simp add: spi_ok_def env0_def)

lemma readRegister_ok [simp]:
  "spi_ok E \<Longrightarrow> reg \<le> 0x7f \<Longrightarrow>
   readRegister E reg s = Inr (snd (rx_buf E (length (bus s))), s\<lparr>bus := bus s @ [[reg, 0]]\<rparr>)"
  by (simp add: readRegister_valid spi_ok_def)

lemma writeRegister_ok [simp]:
  "spi_ok E \<Longrightarrow> reg \<le> 0x7f \<Longrightarrow>
   writeRegister E reg v s = Inr ((), s\<lparr>bus := bus s @ [[reg OR 0x80, v]]\<rparr>)"
  by (simp add: writeRegister_valid spi_ok_def)

lemma setHighPowerSettings_ok [simp]:
  "spi_ok E \<Longrightarrow>
   setHighPowerSettings E enable s =
     Inr ((), s\<lparr>bus := bus s @ (if enable \<and> highPowerDevice s
                                 then [[0xDA, 0x5D], [0xDC, 0x7C]]
                                 else [[0xDA, 0x55], [0xDC, 0x70]])\<rparr>)"
  by (simp add: setHighPowerSettings_def)

lemma valid_reg_bit7: "(reg::8 word) \<le> 0x7f \<Longrightarrow> \<not> bit reg 7"
proof -
  assume "reg \<le> 0x7f"
  then have "reg < 2 ^ 7" by (simp add: word_le_nat_alt word_less_nat_alt)
  then have "reg AND mask 7 = reg" by (rule less_mask_eq)
  then have "bit reg 7 = bit (reg AND mask 7) 7" by simp
  then show ?thesis by (simp add: bit_simps)
qed

lemma setMode_ok:
  assumes "spi_ok E" and "m \<le> RFM69_MODE_RX"
  shows "setMode E m s =
     Inr (if m = mode s then (m, s) else
       (m, s\<lparr>mode := m, bus := bus s @ [[0x81, ucast (push_bit 2 m)]] @
         (if highPowerDevice s \<and> highPowerSettings s \<and> m = RFM69_MODE_RX
            then [[0xDA, 0x55], [0xDC, 0x70]]
          else if highPowerDevice s \<and> highPowerSettings s \<and> m = RFM69_MODE_TX
            then [[0xDA, 0x5D], [0xDC, 0x7C]]
          else [])\<rparr>))"
  using assms leD [of m 4]
  by (simp add: setMode_def io_return_def io_then_def io_bind_def)

lemma word_of_int_small:
  "0 \<le> i \<Longrightarrow> i < 32 \<Longrightarrow> (word_of_int i :: 8 word) AND 0x1F = word_of_int i"
proof -
  assume a: "0 \<le> i" "i < 32"
  then have "uint (word_of_int i :: 8 word) = i" by (simp add: uint_word_of_int)
  then have "(word_of_int i :: 8 word) < 2 ^ 5" using a by (simp add: word_less_def)
  then have "(word_of_int i :: 8 word) AND mask 5 = word_of_int i" by (rule less_mask_eq)
  then show ?thesis by (simp add: mask_eq_exp_minus_1)
qed

lemma pa_bits:
  assumes "(w :: 8 word) AND 0x1F = w" and "pa AND 0xE0 = pa" and "pa AND 0x1F = 0"
  shows "(pa OR w) AND 0xE0 = pa" and "(pa OR w) AND 0x1F = w"
proof -
  have "w AND 0xE0 = (w AND 0x1F) AND 0xE0" using assms by simp
  also have "\<dots> = w AND (0x1F AND 0xE0)" by (simp only: and.assoc)
  also have "\<dots> = 0" by simp
  finally have w: "w AND 0xE0 = 0" .
  show "(pa OR w) AND 0xE0 = pa" using assms w by (simp add: bit.conj_disj_distrib2)
  show "(pa OR w) AND 0x1F = w" using assms by (simp add: bit.conj_disj_distrib2)
qed

lemma pa_level:
  assumes "0 \<le> i" and "i < 32" and "pa AND 0xE0 = pa" and "pa AND 0x1F = 0"
  shows "(pa OR (word_of_int i :: 8 word)) AND 0xE0 = pa"
    and "uint ((pa OR (word_of_int i :: 8 word)) AND 0x1F) = i"
proof -
  have w: "(word_of_int i :: 8 word) AND 0x1F = word_of_int i"
    using assms by (simp add: word_of_int_small)
  show "(pa OR (word_of_int i :: 8 word)) AND 0xE0 = pa"
    using pa_bits(1) [OF w assms(3,4)] .
  have "(pa OR (word_of_int i :: 8 word)) AND 0x1F = word_of_int i"
    using pa_bits(2) [OF w assms(3,4)] .
  then show "uint ((pa OR (word_of_int i :: 8 word)) AND 0x1F) = i"
    using assms by (simp add: uint_word_of_int)
qed

lemma lastPaLevelWrite_snoc_pa [simp]:
  "lastPaLevelWrite (fs @ [[0x91, v]]) = Some (v AND 0x1F)"
  by (simp add: lastPaLevelWrite_def List.map_filter_def)

lemma lastPaLevelWrite_snoc_other [simp]:
  "a \<noteq> 0x91 \<Longrightarrow> lastPaLevelWrite (fs @ [[a, v]]) = lastPaLevelWrite fs"
  by (simp add: lastPaLevelWrite_def List.map_filter_def)

lemma setPowerLevel_keeps_powerLevel_applied:
  assumes "spi_ok E" and "setPowerLevel E p s = Inr (u, s')"
  shows "powerLevel_applied s'" and "powerLevel s' \<le> 31"
proof -
  define q where "q = (if p > 31 then 31 else p)"
  have le: "q \<le> 31" by (simp add: q_def not_less)
  then have "q < 2 ^ 5" by (simp add: word_le_nat_alt word_less_nat_alt)
  then have "q AND mask 5 = q" by (rule less_mask_eq)
  then have m: "q AND 0x1F = q" by (simp add: mask_eq_exp_minus_1)
  have k: "(x AND 0xE0 OR q) AND 0x1F = q" for x :: "8 word"
  proof -
    have "(x AND 0xE0 OR q) AND 0x1F = (x AND (0xE0 AND 0x1F)) OR (q AND 0x1F)"
      by (simp only: bit.conj_disj_distrib2 and.assoc)
    then show ?thesis using m by simp
  qed
  have s': "s' = s\<lparr>powerLevel := q,
      bus := bus s @ [[0x11, 0], [0x91, (snd (rx_buf E (length (bus s))) AND 0xE0) OR q]]\<rparr>"
    using assms
    by (auto simp add: setPowerLevel_def io_return_def io_then_def io_bind_def Let_def
        simp flip: q_def)
  show "powerLevel_applied s'"
    unfolding s' powerLevel_applied_def
    using k lastPaLevelWrite_snoc_pa [of "bus s @ [[0x11, 0]]"] by simp
  show "powerLevel s' \<le> 31" unfolding s' using le by simp
qed

lemma rf12_xferByte_ok [simp]:
  "spi_ok E \<Longrightarrow>
   rf12_xferByte E b s = Inr (ucast (fst (rx_buf E (length (bus s)))), s\<lparr>bus := bus s @ [[b]]\<rparr>)"
  by (simp add: rf12_xferByte_def spi_ioc_message_def spi_ok_def io_bind_def io_return_def
      not_less Let_def split: prod.splits)

lemma xferBytes_ok:
  "spi_ok E \<Longrightarrow> n \<le> length data \<Longrightarrow>
   xferBytes E data n s = Inr ((), s\<lparr>bus := bus s @ map (\<lambda>b. [b]) (take n data)\<rparr>)"
proof (induction n arbitrary: data s)
  case 0
  then show ?case by (simp add: io_return_def)
next
  case (Suc n)
  then obtain b bs where d: "data = b # bs" by (cases data) auto
  with Suc show ?case by (simp add: io_then_def io_bind_def)
qed

lemma receive_stash:
  assumes "rxBufferLength s > 0" and "unat dataLength \<le> length (rxBuffer s)"
    and "unat dataLength \<le> length data"
  shows "receive E data dataLength s =
     Some (Inr ((sint (rxBufferLength s),
                 take (unat dataLength) (rxBuffer s) @ drop (unat dataLength) data),
                s\<lparr>rxBufferLength := 0\<rparr>))"
  using assms by (simp add: receive_def memcpy_def)

lemma HAL_GetTick_eq [simp]:
  "HAL_GetTick E s = Inr (tickAt E (ticks s), s\<lparr>ticks := Suc (ticks s)\<rparr>)"
  by (simp add: HAL_GetTick_def tickAt_def split: prod.splits)










lemma progress_refl [simp]: "progress n s s"
  by (simp add: progress_def)



lemma progress_bus [simp]: "progress n s (s\<lparr>bus := bus s @ fs\<rparr>)"
  by (simp add: progress_def)






























lemma extends_refl [simp]: "extends s s"
  by (simp add: extends_def)


















lemma sdiv_nonneg: "0 \<le> k \<Longrightarrow> 0 < l \<Longrightarrow> (k :: int) sdiv l = k div l"
  by (cases "k = 0") (simp_all add: signed_divide_int_def)


lemma tickAt_env0 [simp]: "tickAt env0 n = of_nat n"
  by (simp add: tickAt_def env0_def sdiv_nonneg)

lemma tickAt_env1 [simp]: "tickAt env1 n = of_nat n"
  by (simp add: tickAt_def env1_def env0_def sdiv_nonneg)


lemma clock_advances_env1: "clock_advances env1"
  by (simp add: clock_advances_def)


text \<open>
  With a clock that stands still a bounded wait is not bounded: a poll for a flag that
  the chip never sets does not return, and neither does the CSMA loop on a channel that
  stays busy.
\<close>

lemma spi_ok_frozen: "spi_ok (env_frozen v)"
  by (simp add: spi_ok_def env_frozen_def)

lemma readRegister_frozen:
  "reg \<le> 0x7f \<Longrightarrow> readRegister (env_frozen v) reg s = Inr (v, s\<lparr>bus := bus s @ [[reg, 0]]\<rparr>)"
  using readRegister_ok [OF spi_ok_frozen, of reg v s] by (simp add: env_frozen_def)

lemma tickAt_frozen: "tickAt (env_frozen v) n = 0"
  by (simp add: tickAt_def env_frozen_def)


lemma pollRegister_frozen_aux:
  "pollRegister E reg msk T t s = Some y \<Longrightarrow>
   E = env_frozen v \<and> reg \<le> 0x7f \<and> v AND msk = 0 \<and> 0 < T \<and> t = 0 \<longrightarrow> False"
proof (erule pollRegister.raw_induct [rotated], intro impI, elim conjE, goal_cases)
  case (1 f E reg msk T t s y)
  then have "f E reg msk T t (s\<lparr>bus := bus s @ [[reg, 0]], ticks := Suc (ticks s)\<rparr>) = Some y"
    by (simp add: readRegister_frozen tickAt_frozen)
  from 1(1) [OF this] 1(3-) show False by simp
qed

lemma pollRegister_frozen:
  "reg \<le> 0x7f \<Longrightarrow> v AND msk = 0 \<Longrightarrow> 0 < T \<Longrightarrow> pollRegister (env_frozen v) reg msk T 0 s = None"
  using pollRegister_frozen_aux [of "env_frozen v" reg msk T 0 s _ v]
  by (cases "pollRegister (env_frozen v) reg msk T 0 s") auto


text \<open>
  \<open>send\<close> of an empty payload on a new device (in Standby), the chip never reporting
  mode-ready and the clock standing still: the wait for mode-ready never returns.
\<close>

lemma send_empty_frozen_clock: "send (env_frozen 0) [] 0 (RFM69_new False) = None"
  by (simp add: send_def prog_then_def prog_bind_def io_total_def io_return_def
      waitForModeReady_def setMode_def tickAt_frozen pollRegister_frozen RFM69_new_def)






section \<open>The claims\<close>

text \<open>
  Claim C1. For every dBm value that \<open>setPowerDBm\<close> accepts (the SPI device working),
  the call returns 0 and writes the vendor's band table: on a device that is not
  high-power (-18..13 dBm) one frame for register \<open>0x11\<close> whose power level is
  \<open>dBm + 18\<close> and whose amplifier bits are PA0 only (\<open>0x80\<close>); on a high-power device
  level \<open>dBm + 18\<close> with PA1 only (\<open>0x40\<close>) for -2..13 dBm and level \<open>dBm + 14\<close> with
  PA1+PA2 (\<open>0x60\<close>) for 14..17 dBm, both with the boost registers \<open>0x5A\<close>, \<open>0x5C\<close> set to
  their normal values \<open>0x55\<close>, \<open>0x70\<close> and the boost flag cleared; level \<open>dBm + 11\<close> with
  PA1+PA2 for 18..20 dBm, with the boost registers set to \<open>0x5D\<close>, \<open>0x7C\<close> and the
  boost flag set.
\<close>

theorem setPowerDBm_band_table:
  assumes "spi_ok E"
  shows
   "(\<not> highPowerDevice s \<and> - 18 \<le> sint dBm \<and> sint dBm \<le> 13 \<longrightarrow>
       (\<exists>v. setPowerDBm E dBm s = Inr (0, s\<lparr>bus := bus s @ [[0x91, v]]\<rparr>) \<and>
            v AND 0xE0 = 0x80 \<and> uint (v AND 0x1F) = sint dBm + 18)) \<and>
    (highPowerDevice s \<and> - 2 \<le> sint dBm \<and> sint dBm \<le> 13 \<longrightarrow>
       (\<exists>v. setPowerDBm E dBm s =
              Inr (0, s\<lparr>highPowerSettings := False,
                         bus := bus s @ [[0x91, v], [0xDA, 0x55], [0xDC, 0x70]]\<rparr>) \<and>
            v AND 0xE0 = 0x40 \<and> uint (v AND 0x1F) = sint dBm + 18)) \<and>
    (highPowerDevice s \<and> 14 \<le> sint dBm \<and> sint dBm \<le> 17 \<longrightarrow>
       (\<exists>v. setPowerDBm E dBm s =
              Inr (0, s\<lparr>highPowerSettings := False,
                         bus := bus s @ [[0x91, v], [0xDA, 0x55], [0xDC, 0x70]]\<rparr>) \<and>
            v AND 0xE0 = 0x60 \<and> uint (v AND 0x1F) = sint dBm + 14)) \<and>
    (highPowerDevice s \<and> 18 \<le> sint dBm \<and> sint dBm \<le> 20 \<longrightarrow>
       (\<exists>v. setPowerDBm E dBm s =
              Inr (0, s\<lparr>highPowerSettings := True,
                         bus := bus s @ [[0x91, v], [0xDA, 0x5D], [0xDC, 0x7C]]\<rparr>) \<and>
            v AND 0xE0 = 0x60 \<and> uint (v AND 0x1F) = sint dBm + 11))"
proof (intro conjI impI)
  assume a: "\<not> highPowerDevice s \<and> - 18 \<le> sint dBm \<and> sint dBm \<le> 13"
  let ?v = "0x80 OR (word_of_int (sint dBm + 18) :: 8 word)"
  have "setPowerDBm E dBm s = Inr (0, s\<lparr>bus := bus s @ [[0x91, ?v]]\<rparr>)"
    using a assms by (simp add: setPowerDBm_def io_return_def io_then_def io_bind_def)
  moreover have "?v AND 0xE0 = 0x80" using a by (intro pa_level(1)) simp_all
  moreover have "uint (?v AND 0x1F) = sint dBm + 18" using a by (intro pa_level(2)) simp_all
  ultimately show "\<exists>v. setPowerDBm E dBm s = Inr (0, s\<lparr>bus := bus s @ [[0x91, v]]\<rparr>) \<and>
            v AND 0xE0 = 0x80 \<and> uint (v AND 0x1F) = sint dBm + 18" by blast
next
  assume a: "highPowerDevice s \<and> - 2 \<le> sint dBm \<and> sint dBm \<le> 13"
  let ?v = "0x40 OR (word_of_int (sint dBm + 18) :: 8 word)"
  have "setPowerDBm E dBm s = Inr (0, s\<lparr>highPowerSettings := False,
                         bus := bus s @ [[0x91, ?v], [0xDA, 0x55], [0xDC, 0x70]]\<rparr>)"
    using a assms by (simp add: setPowerDBm_def io_return_def io_then_def io_bind_def)
  moreover have "?v AND 0xE0 = 0x40" using a by (intro pa_level(1)) simp_all
  moreover have "uint (?v AND 0x1F) = sint dBm + 18" using a by (intro pa_level(2)) simp_all
  ultimately show "\<exists>v. setPowerDBm E dBm s =
              Inr (0, s\<lparr>highPowerSettings := False,
                         bus := bus s @ [[0x91, v], [0xDA, 0x55], [0xDC, 0x70]]\<rparr>) \<and>
            v AND 0xE0 = 0x40 \<and> uint (v AND 0x1F) = sint dBm + 18" by blast
next
  assume a: "highPowerDevice s \<and> 14 \<le> sint dBm \<and> sint dBm \<le> 17"
  let ?v = "0x60 OR (word_of_int (sint dBm + 14) :: 8 word)"
  have "setPowerDBm E dBm s = Inr (0, s\<lparr>highPowerSettings := False,
                         bus := bus s @ [[0x91, ?v], [0xDA, 0x55], [0xDC, 0x70]]\<rparr>)"
    using a assms by (simp add: setPowerDBm_def io_return_def io_then_def io_bind_def)
  moreover have "?v AND 0xE0 = 0x60" using a by (intro pa_level(1)) simp_all
  moreover have "uint (?v AND 0x1F) = sint dBm + 14" using a by (intro pa_level(2)) simp_all
  ultimately show "\<exists>v. setPowerDBm E dBm s =
              Inr (0, s\<lparr>highPowerSettings := False,
                         bus := bus s @ [[0x91, v], [0xDA, 0x55], [0xDC, 0x70]]\<rparr>) \<and>
            v AND 0xE0 = 0x60 \<and> uint (v AND 0x1F) = sint dBm + 14" by blast
next
  assume a: "highPowerDevice s \<and> 18 \<le> sint dBm \<and> sint dBm \<le> 20"
  let ?v = "0x60 OR (word_of_int (sint dBm + 11) :: 8 word)"
  have "setPowerDBm E dBm s = Inr (0, s\<lparr>highPowerSettings := True,
                         bus := bus s @ [[0x91, ?v], [0xDA, 0x5D], [0xDC, 0x7C]]\<rparr>)"
    using a assms by (simp add: setPowerDBm_def io_return_def io_then_def io_bind_def)
  moreover have "?v AND 0xE0 = 0x60" using a by (intro pa_level(1)) simp_all
  moreover have "uint (?v AND 0x1F) = sint dBm + 11" using a by (intro pa_level(2)) simp_all
  ultimately show "\<exists>v. setPowerDBm E dBm s =
              Inr (0, s\<lparr>highPowerSettings := True,
                         bus := bus s @ [[0x91, v], [0xDA, 0x5D], [0xDC, 0x7C]]\<rparr>) \<and>
            v AND 0xE0 = 0x60 \<and> uint (v AND 0x1F) = sint dBm + 11" by blast
qed

theorem setPowerDBm_band_table_witness:
  "(\<exists>v. setPowerDBm env0 13 (RFM69_new False) =
          Inr (0, (RFM69_new False)\<lparr>bus := bus (RFM69_new False) @ [[0x91, v]]\<rparr>) \<and>
        v AND 0xE0 = 0x80 \<and> uint (v AND 0x1F) = 31) \<and>
   (\<exists>v. setPowerDBm env0 20 (RFM69_new True) =
          Inr (0, (RFM69_new True)\<lparr>highPowerSettings := True,
             bus := bus (RFM69_new True) @ [[0x91, v], [0xDA, 0x5D], [0xDC, 0x7C]]\<rparr>) \<and>
        v AND 0xE0 = 0x60 \<and> uint (v AND 0x1F) = 31)"
  using setPowerDBm_band_table [OF spi_ok_env0, of "RFM69_new False" 13]
    setPowerDBm_band_table [OF spi_ok_env0, of "RFM69_new True" 20]
  by (simp add: RFM69_new_def)

text \<open>
  Claim C2. A dBm value outside the applicable bound (below -18 or above 20; above 13 on
  a device that is not high-power; below -2 on a high-power device) makes
  \<open>setPowerDBm\<close> return -1 with the state, the bus included, unchanged.
\<close>

theorem setPowerDBm_rejects:
  "sint dBm < - 18 \<or> sint dBm > 20 \<or> (\<not> highPowerDevice s \<and> sint dBm > 13) \<or>
   (highPowerDevice s \<and> sint dBm < - 2) \<Longrightarrow>
   setPowerDBm E dBm s = Inr (- 1, s)"
  by (auto simp add: setPowerDBm_def io_return_def Let_def)


theorem setPowerDBm_rejects_witness:
  "setPowerDBm env0 14 (RFM69_new False) = Inr (- 1, RFM69_new False) \<and>
   setPowerDBm env0 (- 3) (RFM69_new True) = Inr (- 1, RFM69_new True) \<and>
   setPowerDBm env0 21 (RFM69_new True) = Inr (- 1, RFM69_new True) \<and>
   setPowerDBm env0 (- 19) (RFM69_new False) = Inr (- 1, RFM69_new False)"
  using setPowerDBm_rejects [of 14 "RFM69_new False" env0]
    setPowerDBm_rejects [of "- 3" "RFM69_new True" env0]
    setPowerDBm_rejects [of 21 "RFM69_new True" env0]
    setPowerDBm_rejects [of "- 19" "RFM69_new False" env0]
  by (simp add: RFM69_new_def)

text \<open>
  Claim C3 fails on the code: with a stashed packet, \<open>receive\<close> copies exactly
  \<open>dataLength\<close> bytes of \<^verbatim>\<open>_rxBuffer\<close> whatever the stashed length is, and returns the
  stashed length, not the number of bytes copied. With five bytes stashed, a buffer of
  two bytes gets two bytes and the result 5; a buffer of eight bytes gets the five
  bytes and three stale bytes of \<^verbatim>\<open>_rxBuffer\<close>. (What does hold is lemma
  \<open>receive_stash\<close>: no bus access, and the stash is cleared.)
\<close>

theorem receive_stash_count_not_truncated:
  "receive env0 [0xEE, 0xEE] 2 stash5 = Some (Inr ((5, [1, 2]), stash5\<lparr>rxBufferLength := 0\<rparr>)) \<and>
   receive env0 (replicate 8 0xEE) 8 stash5 =
     Some (Inr ((5, [1, 2, 3, 4, 5, 0, 0, 0]), stash5\<lparr>rxBufferLength := 0\<rparr>))"
  by (simp add: receive_def memcpy_def stash5_def RFM69_new_def numeral_3_eq_3)




text \<open>
  Claim C5. For a register address above \<open>0x7F\<close>, \<open>readRegister\<close> returns 0 and
  \<open>writeRegister\<close> does nothing, both without a bus transfer. For an address in
  \<open>0x00..0x7F\<close> each makes exactly one two-byte transfer: the address byte with bit 7
  clear and a zero byte for a read, which returns the second byte received; the address
  byte with bit 7 set and the value for a write. (Where that one ioctl fails, the
  process is aborted.)
\<close>

theorem register_access_range:
  "(reg > 0x7f \<longrightarrow>
      readRegister E reg s = Inr (0, s) \<and> writeRegister E reg v s = Inr ((), s)) \<and>
   (reg \<le> 0x7f \<and> 0 \<le> ioctl_status E (length (bus s)) \<longrightarrow>
      readRegister E reg s =
        Inr (snd (rx_buf E (length (bus s))), s\<lparr>bus := bus s @ [[reg, 0]]\<rparr>) \<and>
      \<not> bit reg 7 \<and>
      writeRegister E reg v s = Inr ((), s\<lparr>bus := bus s @ [[reg OR 0x80, v]]\<rparr>) \<and>
      bit (reg OR 0x80) 7) \<and>
   (reg \<le> 0x7f \<and> ioctl_status E (length (bus s)) < 0 \<longrightarrow>
      readRegister E reg s = Inl SpiAbort \<and> writeRegister E reg v s = Inl SpiAbort)"
  by (simp add: readRegister_invalid writeRegister_invalid readRegister_valid writeRegister_valid
      readRegister_abort writeRegister_abort valid_reg_bit7 bit_simps)

theorem register_access_range_witness:
  "readRegister env0 0x80 (RFM69_new False) = Inr (0, RFM69_new False) \<and>
   writeRegister env0 0x80 1 (RFM69_new False) = Inr ((), RFM69_new False) \<and>
   readRegister env0 0x27 (RFM69_new False) =
     Inr (0x2A, (RFM69_new False)\<lparr>bus := [[0x27, 0]]\<rparr>) \<and>
   writeRegister env0 0x27 1 (RFM69_new False) =
     Inr ((), (RFM69_new False)\<lparr>bus := [[0xA7, 1]]\<rparr>)"
  using register_access_range [of "0x80" env0 "RFM69_new False" 1]
    register_access_range [of "0x27" env0 "RFM69_new False" 1]
  by (simp add: RFM69_new_def env0_def)

text \<open>
  Claim C6. A mode change that \<open>setMode\<close> performs (target in range and different from
  the current mode, the SPI device working) writes the mode register \<open>0x01\<close> and then,
  on a high-power device whose boost flag is set, the boost registers: their normal
  values on entering Receive, their boost values on entering Transmit. Entering Sleep,
  Standby or FrequencySynth, a cleared boost flag, or a device that is not high-power
  give no further write. The new mode is stored and returned.
\<close>

theorem setMode_amplifier:
  assumes "spi_ok E" and "m \<noteq> mode s" and "m \<le> RFM69_MODE_RX"
  shows "setMode E m s =
     Inr (m, s\<lparr>mode := m, bus := bus s @ [[0x81, ucast (push_bit 2 m)]] @
       (if highPowerDevice s \<and> highPowerSettings s \<and> m = RFM69_MODE_RX
          then [[0xDA, 0x55], [0xDC, 0x70]]
        else if highPowerDevice s \<and> highPowerSettings s \<and> m = RFM69_MODE_TX
          then [[0xDA, 0x5D], [0xDC, 0x7C]]
        else [])\<rparr>)"
  using assms leD [of m 4]
  by (simp add: setMode_def io_return_def io_then_def io_bind_def)


theorem setMode_amplifier_witness:
  "setMode env0 RFM69_MODE_RX ((RFM69_new True)\<lparr>highPowerSettings := True\<rparr>) =
     Inr (RFM69_MODE_RX, (RFM69_new True)\<lparr>mode := RFM69_MODE_RX, highPowerSettings := True,
        bus := [[0x81, 0x10], [0xDA, 0x55], [0xDC, 0x70]]\<rparr>) \<and>
   setMode env0 RFM69_MODE_TX ((RFM69_new True)\<lparr>highPowerSettings := True\<rparr>) =
     Inr (RFM69_MODE_TX, (RFM69_new True)\<lparr>mode := RFM69_MODE_TX, highPowerSettings := True,
        bus := [[0x81, 0x0C], [0xDA, 0x5D], [0xDC, 0x7C]]\<rparr>) \<and>
   setMode env0 RFM69_MODE_SLEEP ((RFM69_new True)\<lparr>highPowerSettings := True\<rparr>) =
     Inr (RFM69_MODE_SLEEP, (RFM69_new True)\<lparr>mode := RFM69_MODE_SLEEP, highPowerSettings := True,
        bus := [[0x81, 0]]\<rparr>) \<and>
   setMode env0 RFM69_MODE_TX (RFM69_new False) =
     Inr (RFM69_MODE_TX, (RFM69_new False)\<lparr>mode := RFM69_MODE_TX, bus := [[0x81, 0x0C]]\<rparr>)"
  using setMode_amplifier [OF spi_ok_env0, of RFM69_MODE_RX "(RFM69_new True)\<lparr>highPowerSettings := True\<rparr>"]
    setMode_amplifier [OF spi_ok_env0, of RFM69_MODE_TX "(RFM69_new True)\<lparr>highPowerSettings := True\<rparr>"]
    setMode_amplifier [OF spi_ok_env0, of RFM69_MODE_SLEEP "(RFM69_new True)\<lparr>highPowerSettings := True\<rparr>"]
    setMode_amplifier [OF spi_ok_env0, of RFM69_MODE_TX "RFM69_new False"]
  by (simp add: RFM69_new_def)

text \<open>
  Claim C7. \<open>setMode\<close> with the current mode, or with a value above \<open>RFM69_MODE_RX\<close>,
  returns the current mode and leaves the state unchanged: nothing is written to the
  bus and the stored mode stays.
\<close>

theorem setMode_noop:
  "m = mode s \<or> m > RFM69_MODE_RX \<Longrightarrow> setMode E m s = Inr (mode s, s)"
  by (simp add: setMode_def io_return_def)

theorem setMode_noop_witness:
  "setMode env0 RFM69_MODE_STANDBY (RFM69_new False) = Inr (RFM69_MODE_STANDBY, RFM69_new False) \<and>
   setMode env0 7 (RFM69_new False) = Inr (RFM69_MODE_STANDBY, RFM69_new False)"
  using setMode_noop [of RFM69_MODE_STANDBY "RFM69_new False" env0]
    setMode_noop [of 7 "RFM69_new False" env0]
  by (simp add: RFM69_new_def)




text \<open>
  Claim C9 fails for \<open>setPowerDBm\<close>: it computes the power level in a local variable and
  never stores it in the field, which \<open>setPowerLevel\<close> does
  (lemma \<open>setPowerLevel_keeps_powerLevel_applied\<close>). On a new device that is not
  high-power, \<open>setPowerDBm 13\<close> writes power level 31 to the chip and leaves the field
  at 0.
\<close>

theorem setPowerDBm_powerLevel_stale:
  "powerLevel_applied (RFM69_new False) \<and>
   (\<exists>s'. setPowerDBm env0 13 (RFM69_new False) = Inr (0, s') \<and>
         lastPaLevelWrite (bus s') = Some 31 \<and> powerLevel s' = 0 \<and>
         \<not> powerLevel_applied s')"
proof -
  have "setPowerDBm env0 13 (RFM69_new False) =
      Inr (0, (RFM69_new False)\<lparr>bus := [[0x91, 0x9F]]\<rparr>)"
    using spi_ok_env0
    by (simp add: setPowerDBm_def io_return_def io_then_def io_bind_def RFM69_new_def)
  moreover have "lastPaLevelWrite [[0x91, 0x9F]] = Some 31"
    using lastPaLevelWrite_snoc_pa [of "[]" "0x9F"] by simp
  moreover have "powerLevel_applied (RFM69_new False)"
    by (simp add: powerLevel_applied_def RFM69_new_def lastPaLevelWrite_def List.map_filter_def)
  ultimately show ?thesis
    by (simp add: powerLevel_applied_def RFM69_new_def)
qed

text \<open>
  Claim C10. \<open>setAESEncryption\<close> (the SPI device working; where the key pointer is not
  null and the key length is 16, the key buffer holds 16 bytes) returns true exactly
  when the key pointer is not null and the key length is 16. It first switches to
  Standby (one write of the mode register unless the device is in Standby already).
  When it returns true it sends the key register address \<open>0x3E\<close> with the write bit and
  the 16 key bytes; with a null pointer or any other key length it sends no key byte
  and does not read the key. In every case it then reads register \<open>0x3D\<close> and writes it
  back with bit 0 set when enabled and cleared otherwise.
\<close>

theorem setAESEncryption_enabled_iff:
  assumes "spi_ok E" and "\<forall>k. aesKey = Some k \<and> keyLength = 16 \<longrightarrow> 16 \<le> length k"
  shows "\<exists>s' v. setAESEncryption E aesKey keyLength s =
             Inr (aesKey \<noteq> None \<and> keyLength = 16, s') \<and>
           mode s' = RFM69_MODE_STANDBY \<and>
           bus s' = bus s
             @ (if mode s = RFM69_MODE_STANDBY then [] else [[0x81, 0x04]])
             @ (case aesKey of
                  Some k \<Rightarrow> if keyLength = 16 then [0xBE] # map (\<lambda>b. [b]) (take 16 k) else []
                | None \<Rightarrow> [])
             @ [[0x3D, 0],
                [0xBD, (v AND 0xFE) OR (if aesKey \<noteq> None \<and> keyLength = 16 then 1 else 0)]]"
proof (cases aesKey)
  case None
  then show ?thesis using assms(1)
    by (auto simp add: setAESEncryption_def setMode_ok io_then_def io_bind_def io_return_def)
next
  case (Some k)
  show ?thesis
  proof (cases "keyLength = 16")
    case True
    then have len: "16 \<le> length k" using assms(2) Some by simp
    show ?thesis using assms(1) Some True len
      by (auto simp add: setAESEncryption_def setMode_ok xferBytes_ok chipSelect_def chipUnselect_def
          io_then_def io_bind_def io_return_def)
  next
    case False
    then show ?thesis using assms(1) Some
      by (auto simp add: setAESEncryption_def setMode_ok io_then_def io_bind_def io_return_def)
  qed
qed

theorem setAESEncryption_enabled_iff_witness:
  "(\<exists>s' v. setAESEncryption env0 (Some (replicate 16 0x11)) 16 (RFM69_new False) = Inr (True, s') \<and>
       mode s' = RFM69_MODE_STANDBY \<and>
       bus s' = [0xBE] # replicate 16 [0x11] @ [[0x3D, 0], [0xBD, (v AND 0xFE) OR 1]]) \<and>
   (\<exists>s' v. setAESEncryption env0 (Some (replicate 16 0x11)) 15
          ((RFM69_new False)\<lparr>mode := RFM69_MODE_RX\<rparr>) = Inr (False, s') \<and>
       mode s' = RFM69_MODE_STANDBY \<and>
       bus s' = [[0x81, 0x04], [0x3D, 0], [0xBD, v AND 0xFE]]) \<and>
   (\<exists>s' v. setAESEncryption env0 (Some (replicate 15 0x11)) 15 (RFM69_new False) = Inr (False, s') \<and>
       mode s' = RFM69_MODE_STANDBY \<and>
       bus s' = [[0x3D, 0], [0xBD, v AND 0xFE]]) \<and>
   (\<exists>s' v. setAESEncryption env0 (Some []) 0 (RFM69_new False) = Inr (False, s') \<and>
       mode s' = RFM69_MODE_STANDBY \<and>
       bus s' = [[0x3D, 0], [0xBD, v AND 0xFE]]) \<and>
   (\<exists>s' v. setAESEncryption env0 None 16 (RFM69_new False) = Inr (False, s') \<and>
       mode s' = RFM69_MODE_STANDBY \<and>
       bus s' = [[0x3D, 0], [0xBD, v AND 0xFE]])"
  using setAESEncryption_enabled_iff [OF spi_ok_env0, of "Some (replicate 16 0x11)" 16 "RFM69_new False"]
    setAESEncryption_enabled_iff [OF spi_ok_env0, of "Some (replicate 16 0x11)" 15
      "(RFM69_new False)\<lparr>mode := RFM69_MODE_RX\<rparr>"]
    setAESEncryption_enabled_iff [OF spi_ok_env0, of "Some (replicate 15 0x11)" 15 "RFM69_new False"]
    setAESEncryption_enabled_iff [OF spi_ok_env0, of "Some []" 0 "RFM69_new False"]
    setAESEncryption_enabled_iff [OF spi_ok_env0, of None 16 "RFM69_new False"]
  by (simp add: RFM69_new_def)

end
